theory Spec2Isabelle
  imports Main
begin

section \<open>Strings and numbers of the host language\<close>

text \<open>
  The program is the TypeScript module \<open>llm-poc-generator.ts\<close> as the patch script
  \<open>fix-poc-review.py\<close> leaves it (the replacement texts of that script), together with
  the dispatch loop installed by \<open>fix-poc-gen.py\<close>.

  Strings are lists of ASCII characters. \<open>toLowerCase\<close> and the white space test are the
  ASCII parts of the JavaScript built-ins; characters outside ASCII are left as they are.
\<close>

definition toLowerChar :: "char \<Rightarrow> char" where
  "toLowerChar c =
     (case map_of (zip ''ABCDEFGHIJKLMNOPQRSTUVWXYZ'' ''abcdefghijklmnopqrstuvwxyz'') c of
        Some l \<Rightarrow> l
      | None \<Rightarrow> c)"

definition toLowerCase :: "string \<Rightarrow> string" where
  "toLowerCase s = map toLowerChar s"

fun startsWith :: "string \<Rightarrow> string \<Rightarrow> bool" where
  "startsWith s [] = True"
| "startsWith [] (t # ts) = False"
| "startsWith (c # cs) (t # ts) = (c = t \<and> startsWith cs ts)"

text \<open>\<open>s.includes(t)\<close>: \<open>t\<close> occurs in \<open>s\<close> as a contiguous run.\<close>

fun includesStr :: "string \<Rightarrow> string \<Rightarrow> bool" where
  "includesStr [] t = (t = [])"
| "includesStr (c # cs) t = (startsWith (c # cs) t \<or> includesStr cs t)"

definition isWhiteSpace :: "char \<Rightarrow> bool" where
  "isWhiteSpace c = (c \<in> set [CHR 0x09, CHR 0x0A, CHR 0x0B, CHR 0x0C, CHR 0x0D, CHR '' ''])"

definition trim :: "string \<Rightarrow> string" where
  "trim s = rev (dropWhile isWhiteSpace (rev (dropWhile isWhiteSpace s)))"

text \<open>
  A JavaScript number as \<open>parseInt\<close> can return it: not-a-number, an infinity, or an
  integer. The rounding of integers beyond \<open>2^53\<close> to the nearest double is not modelled:
  \<open>Num\<close> carries the exact integer.
\<close>

datatype jsnum = NaN | PosInfinity | NegInfinity | Num int

definition Number_isFinite :: "jsnum \<Rightarrow> bool" where
  "Number_isFinite n = (case n of Num i \<Rightarrow> True | _ \<Rightarrow> False)"

definition isDigit :: "char \<Rightarrow> bool" where
  "isDigit c = (c \<in> set ''0123456789'')"

definition digitValue :: "char \<Rightarrow> nat" where
  "digitValue c = (of_char c :: nat) - 48"

fun digitsValue :: "nat \<Rightarrow> string \<Rightarrow> nat" where
  "digitsValue acc [] = acc"
| "digitsValue acc (c # cs) = digitsValue (10 * acc + digitValue c) cs"

text \<open>
  The number value of a mathematical integer: magnitudes from \<open>2^1024 - 2^970\<close> on round
  to an infinity.
\<close>

definition toNumber :: "int \<Rightarrow> jsnum" where
  "toNumber i =
     (if 2 ^ 1024 - 2 ^ 970 \<le> i then PosInfinity
      else if i \<le> - (2 ^ 1024 - 2 ^ 970) then NegInfinity
      else Num i)"

text \<open>
  The built-in \<open>parseInt(v, 10)\<close>: leading white space is skipped, one sign is read, then
  the longest run of decimal digits; no digit at all gives \<open>NaN\<close>.
\<close>

definition parseInt10 :: "string \<Rightarrow> jsnum" where
  "parseInt10 v =
     (let S = dropWhile isWhiteSpace v;
          sign = (case S of c # _ \<Rightarrow> (if c = CHR ''-'' then - 1 else 1) | [] \<Rightarrow> (1 :: int));
          S' = (case S of c # r \<Rightarrow> (if c = CHR ''+'' \<or> c = CHR ''-'' then r else S) | [] \<Rightarrow> S);
          Z = takeWhile isDigit S'
      in if Z = [] then NaN else toNumber (sign * int (digitsValue 0 Z)))"

section \<open>Configuration\<close>

text \<open>\<open>process.env\<close>: a variable is unset or holds a string.\<close>

type_synonym env = "string \<Rightarrow> string option"

text \<open>JavaScript truthiness of \<open>process.env[key]\<close>: set and not the empty string.\<close>

definition truthy :: "string option \<Rightarrow> bool" where
  "truthy v = (case v of None \<Rightarrow> False | Some s \<Rightarrow> s \<noteq> [])"

datatype PocProvider = kimi_code | moonshot

definition resolvePocProvider :: "env \<Rightarrow> PocProvider" where
  "resolvePocProvider e =
     (let explicit = map_option toLowerCase (e ''POC_PROVIDER'')
      in if explicit = Some ''kimi_code'' then kimi_code
         else if explicit = Some ''moonshot'' then moonshot
         else if truthy (e ''KIMI_CODE_API_KEY'') then kimi_code else moonshot)"

definition getPocApiUrl :: "env \<Rightarrow> string" where
  "getPocApiUrl e =
     (if resolvePocProvider e = kimi_code
      then ''https://api.kimi.com/coding/v1/chat/completions''
      else ''https://api.moonshot.ai/v1/chat/completions'')"

text \<open>\<open>v || null\<close>: the value when it is truthy, else null.\<close>

definition orNull :: "string option \<Rightarrow> string option" where
  "orNull v = (if truthy v then v else None)"

definition getPocApiKey :: "env \<Rightarrow> string option" where
  "getPocApiKey e =
     (let provider = resolvePocProvider e
      in if provider = kimi_code then orNull (e ''KIMI_CODE_API_KEY'')
         else orNull (e ''MOONSHOT_API_KEY''))"

text \<open>\<open>v || d\<close> with a string \<open>d\<close>.\<close>

definition orElse :: "string option \<Rightarrow> string \<Rightarrow> string" where
  "orElse v d = (case v of None \<Rightarrow> d | Some s \<Rightarrow> (if s \<noteq> [] then s else d))"

definition getPocModel :: "env \<Rightarrow> string" where
  "getPocModel e = orElse (e ''LLM_POC_MODEL'') (orElse (e ''MOONSHOT_MODEL'') ''kimi-k2.5'')"

text \<open>
  \<open>safeInt\<close>: \<open>n\<close> is the parse of a truthy value and \<open>NaN\<close> otherwise; a finite \<open>n\<close> is
  returned as it is, anything else gives the fallback. Every call passes an integer
  literal as fallback, so the result is an integer (the inner \<open>case\<close> only reads the
  integer out of a finite \<open>n\<close>).
\<close>

definition safeInt :: "env \<Rightarrow> string \<Rightarrow> int \<Rightarrow> int" where
  "safeInt e key fallback =
     (let v = e key;
          n = (case v of None \<Rightarrow> NaN | Some s \<Rightarrow> (if s \<noteq> [] then parseInt10 s else NaN))
      in if Number_isFinite n then (case n of Num i \<Rightarrow> i | _ \<Rightarrow> fallback) else fallback)"

record dispatch_config =
  maxTokens :: int
  timeoutMs :: int
  retries :: int
  concurrency :: int
  maxPocs :: int
  interRequestDelayMs :: int

definition POC_CFG :: "env \<Rightarrow> dispatch_config" where
  "POC_CFG e =
     \<lparr> maxTokens = safeInt e ''LLM_POC_MAX_TOKENS'' 4096,
       timeoutMs = safeInt e ''LLM_POC_TIMEOUT_MS'' 120000,
       retries = safeInt e ''LLM_POC_RETRIES'' 2,
       concurrency = safeInt e ''LLM_POC_CONCURRENCY'' 1,
       maxPocs = safeInt e ''LLM_POC_MAX'' 10,
       interRequestDelayMs = safeInt e ''LLM_POC_DELAY_MS'' 2000 \<rparr>"

section \<open>The request executor\<close>

text \<open>
  What the provider answers to one \<open>fetch\<close>: the status, the body text as \<open>res.text()\<close>
  gives it (the empty string when reading it fails), and
  \<open>data.choices?.[0]?.message?.content\<close> of the parsed body (\<open>None\<close> for undefined or
  null).
\<close>

record http_response =
  status :: nat
  body :: string
  content :: "string option"

record llm_request =
  req_url :: string
  req_bearer :: string
  req_model :: string
  req_max_tokens :: int
  req_system :: string
  req_user :: string

text \<open>The errors \<open>callLLM\<close> throws, with the parts of their messages.\<close>

datatype llm_error =
    ApiKeyNotSet string PocProvider
  | StatusError string nat string
  | Deterministic400 string string
  | NotOk string nat string
  | EmptyResponse
  | LoopLeft

definition res_ok :: "http_response \<Rightarrow> bool" where
  "res_ok res = (200 \<le> status res \<and> status res \<le> 299)"

definition transient :: "string list" where
  "transient = [''rate limit'', ''overloaded'', ''try again'', ''temporarily'', ''throttl'']"

definition isTransient :: "string \<Rightarrow> bool" where
  "isTransient lower = list_ex (\<lambda>t. includesStr lower t) transient"

definition isTokenLimit :: "string \<Rightarrow> bool" where
  "isTokenLimit lower =
     (includesStr lower ''max_tokens'' \<or> includesStr lower ''context length''
      \<or> includesStr lower ''too many tokens'')"

text \<open>\<open>!content || content.trim().length === 0\<close>\<close>

definition isBlank :: "string option \<Rightarrow> bool" where
  "isBlank c = (case c of None \<Rightarrow> True | Some s \<Rightarrow> s = [] \<or> length (trim s) = 0)"

text \<open>
  How one pass through the body of the \<open>for\<close> loop ends once the response is there:
  \<open>continue\<close> after a sleep (with the working \<open>maxTokens\<close> of the next pass), a thrown
  error, or the returned text. The warnings written to the console are left out. In the
  last line the text is there, since \<open>isBlank\<close> has failed; its \<open>None\<close> case is never
  taken.
\<close>

datatype attempt_outcome = Continue nat int | Throw llm_error | Return string

definition callLLM_attempt ::
  "dispatch_config \<Rightarrow> string \<Rightarrow> nat \<Rightarrow> int \<Rightarrow> http_response \<Rightarrow> attempt_outcome" where
  "callLLM_attempt cfg apiName attempt maxTok res =
     (if status res = 429 \<or> status res \<ge> 500 then
        (if int attempt < retries cfg then Continue (3000 * 2 ^ attempt) maxTok
         else Throw (StatusError apiName (status res) (take 300 (body res))))
      else if status res = 400 then
        (let lower = toLowerCase (body res)
         in if isTransient lower \<and> int attempt < retries cfg then
              Continue (3000 * 2 ^ attempt) maxTok
            else if isTokenLimit lower \<and> int attempt < retries cfg \<and> maxTok > 2048 then
              Continue 1000 (maxTok div 2)
            else Throw (Deterministic400 apiName (take 300 (body res))))
      else if \<not> res_ok res then Throw (NotOk apiName (status res) (body res))
      else if isBlank (content res) then
        (if int attempt < retries cfg then Continue 1000 maxTok else Throw EmptyResponse)
      else (case content res of Some c \<Rightarrow> Return c | None \<Rightarrow> Throw EmptyResponse))"

text \<open>What the call does to the outside, in order: a request sent, a sleep.\<close>

datatype event = Fetch llm_request | Sleep nat

type_synonym llm_result = "(llm_error + string) \<times> event list"

text \<open>
  The \<open>for\<close> loop of \<open>callLLM\<close>. The provider is a script: its answer to the request of
  each pass. Every pass sends one request.
\<close>

text \<open>
  Modelled from the spec: the \<open>catch\<close> clause of the loop's \<open>try\<close> and the statement after
  the loop are not in the source. An error thrown in the body ends the call (the
  FatalFail of the request executor), and leaving the loop by its condition is the error
  \<open>LoopLeft\<close>. A \<open>fetch\<close> that rejects (time-out, abort, transport failure) goes to that
  \<open>catch\<close> clause and is not part of the model.
\<close>

function callLLM_loop ::
  "dispatch_config \<Rightarrow> string \<Rightarrow> (int \<Rightarrow> llm_request) \<Rightarrow> (nat \<Rightarrow> http_response)
     \<Rightarrow> nat \<Rightarrow> int \<Rightarrow> llm_result" where
  "callLLM_loop cfg apiName mkReq provider attempt maxTok =
     (if int attempt \<le> retries cfg then
        (case callLLM_attempt cfg apiName attempt maxTok (provider attempt) of
           Continue ms maxTok' \<Rightarrow>
             apsnd (\<lambda>tr. Fetch (mkReq maxTok) # Sleep ms # tr)
               (callLLM_loop cfg apiName mkReq provider (Suc attempt) maxTok')
         | Throw err \<Rightarrow> (Inl err, [Fetch (mkReq maxTok)])
         | Return c \<Rightarrow> (Inr c, [Fetch (mkReq maxTok)]))
      else (Inl LoopLeft, []))"
  by pat_completeness auto
termination
  by (relation "measure (\<lambda>(cfg, apiName, mkReq, provider, attempt, maxTok).
        nat (retries cfg + 1 - int attempt))") auto

definition callLLM ::
  "env \<Rightarrow> dispatch_config \<Rightarrow> (nat \<Rightarrow> http_response) \<Rightarrow> string \<Rightarrow> string \<Rightarrow> llm_result" where
  "callLLM e cfg provider system user =
     (let apiKey = getPocApiKey e;
          prov = resolvePocProvider e;
          apiName = (if prov = kimi_code then ''Kimi Code'' else ''Moonshot'')
      in case apiKey of
           None \<Rightarrow> (Inl (ApiKeyNotSet apiName prov), [])
         | Some key \<Rightarrow>
             (let apiUrl = getPocApiUrl e;
                  model = getPocModel e
              in callLLM_loop cfg apiName
                   (\<lambda>mt. \<lparr> req_url = apiUrl, req_bearer = key, req_model = model,
                            req_max_tokens = mt, req_system = system, req_user = user \<rparr>)
                   provider 0 (maxTokens cfg)))"

text \<open>Readings of a trace.\<close>

fun fetches :: "event list \<Rightarrow> llm_request list" where
  "fetches [] = []"
| "fetches (Fetch r # tr) = r # fetches tr"
| "fetches (Sleep ms # tr) = fetches tr"

fun sleeps :: "event list \<Rightarrow> nat list" where
  "sleeps [] = []"
| "sleeps (Fetch r # tr) = sleeps tr"
| "sleeps (Sleep ms # tr) = ms # sleeps tr"

section \<open>The batch dispatcher\<close>

text \<open>
  \<open>Promise.all(toProcess.map((finding, idx) => limit(async () => {...})))\<close> on a virtual
  clock in milliseconds. All tasks are queued at time 0, in the order of the list. The
  limiter of the \<open>p-limit\<close> package admits queued tasks in that order, at most \<open>c\<close> at a
  time, the next one at the moment a running one settles; \<open>running\<close> holds the sorted
  completion times of the tasks that occupy a place. An admitted task with \<open>idx > 0\<close>
  first sleeps \<open>interRequestDelayMs\<close>, then calls \<open>generateSinglePoC\<close>, whose duration
  and success are given by \<open>gen\<close>.
\<close>

record slot =
  admitted :: nat
  issued :: nat
  completed :: nat
  succeeded :: bool

text \<open>
  The limiter: when the next queued task is admitted, and the places still taken then. A
  place is free only while fewer than \<open>c\<close> tasks have been admitted, which is at time 0.
\<close>

definition admit :: "nat \<Rightarrow> nat list \<Rightarrow> nat \<times> nat list" where
  "admit c running =
     (case running of
        [] \<Rightarrow> (0, [])
      | t # ts \<Rightarrow> (if length running < c then (0, running) else (t, ts)))"

text \<open>
  The function handed to the limiter for the item at \<open>idx\<close>, admitted at \<open>adm\<close>. The
  helper \<open>sleep\<close> is not in the source; it is taken to resume the task after the given
  number of milliseconds.
\<close>

definition run_task :: "nat \<Rightarrow> ('f \<Rightarrow> nat \<times> bool) \<Rightarrow> nat \<Rightarrow> nat \<Rightarrow> 'f \<Rightarrow> slot" where
  "run_task delay gen idx adm f =
     (let iss = (if idx > 0 then adm + delay else adm)
      in case gen f of
           (dur, ok) \<Rightarrow> \<lparr> admitted = adm, issued = iss, completed = iss + dur, succeeded = ok \<rparr>)"

fun run_limited ::
  "nat \<Rightarrow> nat \<Rightarrow> ('f \<Rightarrow> nat \<times> bool) \<Rightarrow> nat list \<Rightarrow> nat \<Rightarrow> 'f list \<Rightarrow> slot list" where
  "run_limited c delay gen running idx [] = []"
| "run_limited c delay gen running idx (f # fs) =
     (case admit c running of
        (adm, rest) \<Rightarrow>
          (let s = run_task delay gen idx adm f
           in s # run_limited c delay gen (insort (completed s) rest) (Suc idx) fs))"

text \<open>\<open>pLimit\<close> throws a type error for a concurrency below 1.\<close>

datatype dispatch_error = BadConcurrency

definition dispatch ::
  "dispatch_config \<Rightarrow> ('f \<Rightarrow> nat \<times> bool) \<Rightarrow> 'f list \<Rightarrow> dispatch_error + slot list" where
  "dispatch cfg gen toProcess =
     (if concurrency cfg < 1 then Inl BadConcurrency
      else Inr (run_limited (nat (concurrency cfg)) (nat (interRequestDelayMs cfg)) gen [] 0
                  toProcess))"

section \<open>The identifier token of an artifact\<close>






section \<open>Sample inputs\<close>

definition badEnv :: env where
  "badEnv = [''LLM_POC_MAX_TOKENS'' \<mapsto> ''abc'', ''LLM_POC_TIMEOUT_MS'' \<mapsto> '''',
             ''LLM_POC_RETRIES'' \<mapsto> ''x2'', ''LLM_POC_CONCURRENCY'' \<mapsto> ''-'',
             ''LLM_POC_MAX'' \<mapsto> ''NaN'']"

definition modelEnv :: env where
  "modelEnv = [''LLM_POC_MODEL'' \<mapsto> ''kimi-x'', ''MOONSHOT_MODEL'' \<mapsto> ''m2'',
               ''KIMI_CODE_API_KEY'' \<mapsto> ''k'']"

definition noKeyEnv :: env where
  "noKeyEnv = [''POC_PROVIDER'' \<mapsto> ''Moonshot'', ''KIMI_CODE_API_KEY'' \<mapsto> ''k'']"

definition keyEnv :: env where
  "keyEnv = [''MOONSHOT_API_KEY'' \<mapsto> ''k'']"

definition always :: "http_response \<Rightarrow> nat \<Rightarrow> http_response" where
  "always res i = res"

definition script :: "http_response list \<Rightarrow> http_response \<Rightarrow> nat \<Rightarrow> http_response" where
  "script rs final i = (if i < length rs then rs ! i else final)"

definition badRequest :: "string \<Rightarrow> http_response" where
  "badRequest b = \<lparr> status = 400, body = b, content = None \<rparr>"

definition tooMany :: http_response where
  "tooMany = \<lparr> status = 429, body = ''slow down'', content = None \<rparr>"

definition answer :: "string \<Rightarrow> http_response" where
  "answer c = \<lparr> status = 200, body = [], content = Some c \<rparr>"

definition moonshotReq :: "int \<Rightarrow> llm_request" where
  "moonshotReq = (\<lambda>mt.
     \<lparr> req_url = ''https://api.moonshot.ai/v1/chat/completions'', req_bearer = ''k'',
       req_model = ''kimi-k2.5'', req_max_tokens = mt, req_system = ''s'', req_user = ''u'' \<rparr>)"


definition threeItems :: "nat list" where
  "threeItems = [500, 100, 700]"

definition sampleGen :: "nat \<Rightarrow> nat \<times> bool" where
  "sampleGen f = (f, f \<noteq> 500)"

section \<open>Facts about the configuration\<close>

lemma parseInt10_Nil: "parseInt10 [] = NaN"
  by (simp add: parseInt10_def)

lemma safeInt_fallback:
  "(\<And>v. e key = Some v \<Longrightarrow> \<not> Number_isFinite (parseInt10 v)) \<Longrightarrow> safeInt e key d = d"
  by (auto simp: safeInt_def Number_isFinite_def split: option.splits jsnum.splits)

lemma safeInt_parsed:
  "e key = Some v \<Longrightarrow> parseInt10 v = Num n \<Longrightarrow> safeInt e key d = n"
  by (auto simp: safeInt_def Number_isFinite_def parseInt10_Nil split: option.splits jsnum.splits)

lemma parseInt10_examples:
  "parseInt10 ''abc'' = NaN" "parseInt10 ''x2'' = NaN" "parseInt10 ''-'' = NaN"
  "parseInt10 ''NaN'' = NaN" "parseInt10 ''12abc'' = Num 12" "parseInt10 ''0'' = Num 0"
  "parseInt10 ''-3'' = Num (- 3)" "parseInt10 '' 7'' = Num 7"
  by (simp_all add: parseInt10_def isWhiteSpace_def isDigit_def digitValue_def toNumber_def)

text \<open>
  C5: a numeric environment variable that is unset or whose value does not parse to a finite
  integer leaves its field of the configuration at the documented default: \<open>maxTokens\<close>
  4096, \<open>timeoutMs\<close> 120000, \<open>retries\<close> 2, \<open>concurrency\<close> 1, \<open>maxPocs\<close> 10,
  \<open>interRequestDelayMs\<close> 2000. Every field is an integer, so neither \<open>NaN\<close> nor an
  infinity reaches the code that reads the configuration.
\<close>

theorem malformed_env_falls_back_to_defaults:
  "((\<forall>v. e ''LLM_POC_MAX_TOKENS'' = Some v \<longrightarrow> \<not> Number_isFinite (parseInt10 v))
      \<longrightarrow> maxTokens (POC_CFG e) = 4096)
   \<and> ((\<forall>v. e ''LLM_POC_TIMEOUT_MS'' = Some v \<longrightarrow> \<not> Number_isFinite (parseInt10 v))
      \<longrightarrow> timeoutMs (POC_CFG e) = 120000)
   \<and> ((\<forall>v. e ''LLM_POC_RETRIES'' = Some v \<longrightarrow> \<not> Number_isFinite (parseInt10 v))
      \<longrightarrow> retries (POC_CFG e) = 2)
   \<and> ((\<forall>v. e ''LLM_POC_CONCURRENCY'' = Some v \<longrightarrow> \<not> Number_isFinite (parseInt10 v))
      \<longrightarrow> concurrency (POC_CFG e) = 1)
   \<and> ((\<forall>v. e ''LLM_POC_MAX'' = Some v \<longrightarrow> \<not> Number_isFinite (parseInt10 v))
      \<longrightarrow> maxPocs (POC_CFG e) = 10)
   \<and> ((\<forall>v. e ''LLM_POC_DELAY_MS'' = Some v \<longrightarrow> \<not> Number_isFinite (parseInt10 v))
      \<longrightarrow> interRequestDelayMs (POC_CFG e) = 2000)"
  by (simp add: POC_CFG_def safeInt_fallback)

text \<open>
  Five malformed values and one unset variable give the six defaults.
\<close>

theorem malformed_env_falls_back_to_defaults_witness:
  "\<not> Number_isFinite (parseInt10 ''abc'') \<and> \<not> Number_isFinite (parseInt10 '''')
   \<and> \<not> Number_isFinite (parseInt10 ''x2'') \<and> \<not> Number_isFinite (parseInt10 ''-'')
   \<and> \<not> Number_isFinite (parseInt10 ''NaN'')
   \<and> POC_CFG badEnv = \<lparr> maxTokens = 4096, timeoutMs = 120000, retries = 2, concurrency = 1,
        maxPocs = 10, interRequestDelayMs = 2000 \<rparr>"
  using malformed_env_falls_back_to_defaults [of badEnv]
  by (simp add: badEnv_def parseInt10_examples parseInt10_Nil Number_isFinite_def)

text \<open>
  C10: a value whose parse is a finite integer is returned by \<open>safeInt\<close> as it is,
  whatever the fallback: a prefix parse such as \<open>12abc\<close> gives 12, and zero and negative
  values pass, so the loader enforces none of the ranges (a concurrency of 0 and negative
  retries, item bounds and delays are accepted).
\<close>

theorem safeInt_keeps_finite_parse:
  "(e key = Some v \<and> parseInt10 v = Num n \<longrightarrow> safeInt e key d = n)
   \<and> parseInt10 ''12abc'' = Num 12
   \<and> maxTokens (POC_CFG [''LLM_POC_MAX_TOKENS'' \<mapsto> ''12abc'']) = 12
   \<and> retries (POC_CFG [''LLM_POC_RETRIES'' \<mapsto> ''-3'']) = - 3
   \<and> concurrency (POC_CFG [''LLM_POC_CONCURRENCY'' \<mapsto> ''0'']) = 0
   \<and> maxPocs (POC_CFG [''LLM_POC_MAX'' \<mapsto> ''-3'']) = - 3
   \<and> interRequestDelayMs (POC_CFG [''LLM_POC_DELAY_MS'' \<mapsto> ''-3'']) = - 3"
  by (simp add: safeInt_parsed POC_CFG_def parseInt10_examples)

text \<open>
  \<open>LLM_POC_RETRIES=0\<close> gives 0 retries, not the default 2.
\<close>

theorem safeInt_keeps_finite_parse_witness:
  "parseInt10 ''0'' = Num 0 \<and> safeInt [''LLM_POC_RETRIES'' \<mapsto> ''0''] ''LLM_POC_RETRIES'' 2 = 0"
  using safeInt_keeps_finite_parse
    [of "[''LLM_POC_RETRIES'' \<mapsto> ''0'']" "''LLM_POC_RETRIES''" "''0''" 0 2]
  by (simp add: parseInt10_examples)

text \<open>
  C8: the endpoint is determined by the resolved provider alone; the model is
  \<open>LLM_POC_MODEL\<close> when that is set (not empty), else \<open>MOONSHOT_MODEL\<close> when that is set,
  else \<open>kimi-k2.5\<close>.
\<close>

theorem endpoint_and_model_resolution:
  "getPocApiUrl e =
     (case resolvePocProvider e of
        kimi_code \<Rightarrow> ''https://api.kimi.com/coding/v1/chat/completions''
      | moonshot \<Rightarrow> ''https://api.moonshot.ai/v1/chat/completions'')
   \<and> (resolvePocProvider e = resolvePocProvider e' \<longrightarrow> getPocApiUrl e = getPocApiUrl e')
   \<and> (e ''LLM_POC_MODEL'' = Some m \<and> m \<noteq> [] \<longrightarrow> getPocModel e = m)
   \<and> (\<not> truthy (e ''LLM_POC_MODEL'') \<and> e ''MOONSHOT_MODEL'' = Some m \<and> m \<noteq> []
        \<longrightarrow> getPocModel e = m)
   \<and> (\<not> truthy (e ''LLM_POC_MODEL'') \<and> \<not> truthy (e ''MOONSHOT_MODEL'')
        \<longrightarrow> getPocModel e = ''kimi-k2.5'')"
  by (auto simp: getPocApiUrl_def getPocModel_def orElse_def truthy_def
           split: PocProvider.splits option.splits)

text \<open>
  With both model variables set, \<open>LLM_POC_MODEL\<close> wins.
\<close>

theorem endpoint_and_model_resolution_witness:
  "modelEnv ''LLM_POC_MODEL'' = Some ''kimi-x'' \<and> ''kimi-x'' \<noteq> []
   \<and> getPocModel modelEnv = ''kimi-x''
   \<and> resolvePocProvider modelEnv = kimi_code
   \<and> getPocApiUrl modelEnv = ''https://api.kimi.com/coding/v1/chat/completions''"
proof -
  have p: "resolvePocProvider modelEnv = kimi_code"
    by (simp add: modelEnv_def resolvePocProvider_def truthy_def)
  have m: "modelEnv ''LLM_POC_MODEL'' = Some ''kimi-x''"
    by (simp add: modelEnv_def)
  from endpoint_and_model_resolution [of modelEnv modelEnv "''kimi-x''"] p m
  show ?thesis by simp
qed

text \<open>
  C4: a recognised override in \<open>POC_PROVIDER\<close> (\<open>kimi_code\<close> or \<open>moonshot\<close>, in any
  letter case) decides the provider; otherwise it is \<open>kimi_code\<close> exactly when
  \<open>KIMI_CODE_API_KEY\<close> is set, else \<open>moonshot\<close>. The credential is the key of the
  resolved provider only. When it is missing, \<open>callLLM\<close> ends with the configuration
  error and an empty trace: no request is sent and nothing is slept or retried, whatever
  the configuration and the provider's answers would be.
\<close>

theorem provider_resolution_and_missing_credential:
  "(map_option toLowerCase (e ''POC_PROVIDER'') = Some ''kimi_code''
      \<longrightarrow> resolvePocProvider e = kimi_code)
   \<and> (map_option toLowerCase (e ''POC_PROVIDER'') = Some ''moonshot''
      \<longrightarrow> resolvePocProvider e = moonshot)
   \<and> (map_option toLowerCase (e ''POC_PROVIDER'') \<noteq> Some ''kimi_code''
      \<and> map_option toLowerCase (e ''POC_PROVIDER'') \<noteq> Some ''moonshot''
      \<longrightarrow> resolvePocProvider e
          = (if truthy (e ''KIMI_CODE_API_KEY'') then kimi_code else moonshot))
   \<and> getPocApiKey e
       = (case resolvePocProvider e of
            kimi_code \<Rightarrow> orNull (e ''KIMI_CODE_API_KEY'')
          | moonshot \<Rightarrow> orNull (e ''MOONSHOT_API_KEY''))
   \<and> (getPocApiKey e = None
      \<longrightarrow> (\<exists>err. callLLM e cfg provider system user = (Inl err, [])
            \<and> err = ApiKeyNotSet (case resolvePocProvider e of
                                    kimi_code \<Rightarrow> ''Kimi Code'' | moonshot \<Rightarrow> ''Moonshot'')
                      (resolvePocProvider e)))"
  by (auto simp: resolvePocProvider_def getPocApiKey_def callLLM_def Let_def
           split: PocProvider.splits)

text \<open>
  The override \<open>Moonshot\<close> with only the Kimi Code key set: the call fails before any
  request, although a key of the other provider is there.
\<close>

theorem provider_resolution_and_missing_credential_witness:
  "map_option toLowerCase (noKeyEnv ''POC_PROVIDER'') = Some ''moonshot''
   \<and> getPocApiKey noKeyEnv = None
   \<and> callLLM noKeyEnv (POC_CFG noKeyEnv) (\<lambda>i. \<lparr>status = 200, body = [], content = Some ''ok''\<rparr>)
        ''s'' ''u''
       = (Inl (ApiKeyNotSet ''Moonshot'' moonshot), [])
   \<and> resolvePocProvider [''KIMI_CODE_API_KEY'' \<mapsto> ''k''] = kimi_code
   \<and> resolvePocProvider Map.empty = moonshot"
  using provider_resolution_and_missing_credential
      [of noKeyEnv "POC_CFG noKeyEnv" "\<lambda>i. \<lparr>status = 200, body = [], content = Some ''ok''\<rparr>"
          "''s''" "''u''"]
    provider_resolution_and_missing_credential [of "[''KIMI_CODE_API_KEY'' \<mapsto> ''k'']"]
    provider_resolution_and_missing_credential [of Map.empty]
  by (simp add: noKeyEnv_def toLowerCase_def toLowerChar_def truthy_def orNull_def)

section \<open>Facts about the request executor\<close>

declare callLLM_loop.simps [simp del]

lemma loop_Continue:
  "int attempt \<le> retries cfg \<Longrightarrow>
   callLLM_attempt cfg an attempt mt (provider attempt) = Continue ms mt' \<Longrightarrow>
   callLLM_loop cfg an mk provider attempt mt
     = apsnd (\<lambda>tr. Fetch (mk mt) # Sleep ms # tr)
         (callLLM_loop cfg an mk provider (Suc attempt) mt')"
  by (subst callLLM_loop.simps) simp

lemma loop_Throw:
  "int attempt \<le> retries cfg \<Longrightarrow>
   callLLM_attempt cfg an attempt mt (provider attempt) = Throw err \<Longrightarrow>
   callLLM_loop cfg an mk provider attempt mt = (Inl err, [Fetch (mk mt)])"
  by (subst callLLM_loop.simps) simp

lemma loop_Return:
  "int attempt \<le> retries cfg \<Longrightarrow>
   callLLM_attempt cfg an attempt mt (provider attempt) = Return c \<Longrightarrow>
   callLLM_loop cfg an mk provider attempt mt = (Inr c, [Fetch (mk mt)])"
  by (subst callLLM_loop.simps) simp

lemma loop_first_fetch:
  assumes "int attempt \<le> retries cfg"
  shows "\<exists>r tr. callLLM_loop cfg an mk provider attempt mt = (r, Fetch (mk mt) # tr)"
proof (cases "callLLM_attempt cfg an attempt mt (provider attempt)")
  case (Continue ms mt')
  obtain r tr where "callLLM_loop cfg an mk provider (Suc attempt) mt' = (r, tr)"
    by (cases "callLLM_loop cfg an mk provider (Suc attempt) mt'")
  with loop_Continue [of attempt cfg an mt provider ms mt' mk] assms Continue
  show ?thesis by simp
next
  case (Throw err)
  from loop_Throw [of attempt cfg an mt provider err mk] assms Throw
  show ?thesis by simp
next
  case (Return c)
  from loop_Return [of attempt cfg an mt provider c mk] assms Return
  show ?thesis by simp
qed

lemma loop_retry_trace:
  assumes le: "int attempt < retries cfg"
    and step: "callLLM_attempt cfg an attempt mt (provider attempt) = Continue ms mt'"
  shows "\<exists>r tr. callLLM_loop cfg an mk provider attempt mt
           = (r, Fetch (mk mt) # Sleep ms # Fetch (mk mt') # tr)"
proof -
  from le have le1: "int attempt \<le> retries cfg" and le2: "int (Suc attempt) \<le> retries cfg"
    by simp_all
  from loop_first_fetch [of "Suc attempt" cfg an mk provider mt'] le2
  obtain r tr where "callLLM_loop cfg an mk provider (Suc attempt) mt' = (r, Fetch (mk mt') # tr)"
    by blast
  with loop_Continue [of attempt cfg an mt provider ms mt' mk] le1 step
  show ?thesis by simp
qed

text \<open>
  A script that makes every pass before \<open>r\<close> continue with the same \<open>maxTokens\<close> and ends
  the call on pass \<open>r\<close>.
\<close>

lemma loop_script:
  assumes r: "int r \<le> retries cfg"
    and steps: "\<And>i. i < r \<Longrightarrow> callLLM_attempt cfg an i mt (provider i) = Continue (d i) mt"
    and final: "callLLM_loop cfg an mk provider r mt = (x, [Fetch (mk mt)])"
  shows "attempt \<le> r \<Longrightarrow>
     fst (callLLM_loop cfg an mk provider attempt mt) = x
     \<and> fetches (snd (callLLM_loop cfg an mk provider attempt mt))
         = replicate (Suc r - attempt) (mk mt)
     \<and> sleeps (snd (callLLM_loop cfg an mk provider attempt mt)) = map d [attempt..<r]"
proof (induction "r - attempt" arbitrary: attempt)
  case 0
  then have "attempt = r" by simp
  with final show ?case by simp
next
  case (Suc k)
  then have lt: "attempt < r" by simp
  have le: "int attempt \<le> retries cfg" using lt r by simp
  have IH: "fst (callLLM_loop cfg an mk provider (Suc attempt) mt) = x
     \<and> fetches (snd (callLLM_loop cfg an mk provider (Suc attempt) mt))
         = replicate (Suc r - Suc attempt) (mk mt)
     \<and> sleeps (snd (callLLM_loop cfg an mk provider (Suc attempt) mt))
         = map d [Suc attempt..<r]"
    using Suc.hyps(1) [of "Suc attempt"] Suc.hyps(2) lt by simp
  have "Suc r - attempt = Suc (Suc r - Suc attempt)" using lt by simp
  moreover have "[attempt..<r] = attempt # [Suc attempt..<r]" using lt by (simp add: upt_conv_Cons)
  ultimately show ?case
    using IH loop_Continue [of attempt cfg an mt provider "d attempt" mt mk] le steps [OF lt]
    by simp
qed

text \<open>No call sends more than \<open>retries + 1\<close> requests.\<close>

lemma loop_fetch_bound:
  "length (fetches (snd (callLLM_loop cfg an mk provider attempt mt)))
     \<le> nat (retries cfg + 1 - int attempt)"
proof (induction cfg an mk provider attempt mt rule: callLLM_loop.induct)
  case (1 cfg an mk provider attempt mt)
  show ?case
  proof (cases "int attempt \<le> retries cfg")
    case False
    then show ?thesis by (subst callLLM_loop.simps) simp
  next
    case le: True
    show ?thesis
    proof (cases "callLLM_attempt cfg an attempt mt (provider attempt)")
      case (Continue ms mt')
      from "1.IH" [OF le Continue]
      have "length (fetches (snd (callLLM_loop cfg an mk provider (Suc attempt) mt')))
              \<le> nat (retries cfg + 1 - int (Suc attempt))" .
      with le loop_Continue [of attempt cfg an mt provider ms mt' mk] Continue
      show ?thesis by simp
    next
      case (Throw err)
      with le loop_Throw [of attempt cfg an mt provider err mk] show ?thesis by simp
    next
      case (Return c)
      with le loop_Return [of attempt cfg an mt provider c mk] show ?thesis by simp
    qed
  qed
qed

lemma callLLM_keyEnv:
  "callLLM keyEnv cfg provider ''s'' ''u''
     = callLLM_loop cfg ''Moonshot'' moonshotReq provider 0 (maxTokens cfg)"
  by (simp add: callLLM_def keyEnv_def getPocApiKey_def resolvePocProvider_def truthy_def
        orNull_def getPocApiUrl_def getPocModel_def orElse_def moonshotReq_def)

lemma POC_CFG_empty:
  "POC_CFG Map.empty = \<lparr> maxTokens = 4096, timeoutMs = 120000, retries = 2, concurrency = 1,
        maxPocs = 10, interRequestDelayMs = 2000 \<rparr>"
  by (simp add: POC_CFG_def safeInt_def Number_isFinite_def)

lemma marker_examples:
  "isTransient (toLowerCase ''Rate Limit exceeded'')"
  "\<not> isTransient (toLowerCase ''invalid model'')"
  "\<not> isTokenLimit (toLowerCase ''invalid model'')"
  "isTokenLimit (toLowerCase ''maximum context length exceeded'')"
  "\<not> isTransient (toLowerCase ''maximum context length exceeded'')"
  "isTokenLimit (toLowerCase ''rate limit: too many tokens'')"
  "isTransient (toLowerCase ''rate limit: too many tokens'')"
  by (simp_all add: isTransient_def isTokenLimit_def transient_def toLowerCase_def toLowerChar_def)

text \<open>
  C1: a 400 response received on pass \<open>attempt\<close> is classified by its lower-cased body.
  With a transient marker and a pass left (\<open>attempt < retries\<close>) the call sleeps
  \<open>3000 * 2 ^ attempt\<close> ms and sends the request again, unchanged. With neither a
  transient nor a token-limit marker the call ends at once with the deterministic-400
  error and sends nothing more; on pass 0 that is one request and no sleep. On the last
  pass of the schedule (\<open>attempt = retries\<close>) every 400 ends the call.
\<close>

theorem bad_request_classification:
  assumes "status res = 400" and "provider attempt = res" and "int attempt \<le> retries cfg"
  shows
    "(isTransient (toLowerCase (body res)) \<and> int attempt < retries cfg \<longrightarrow>
        (\<exists>r tr. callLLM_loop cfg an mk provider attempt mt
           = (r, Fetch (mk mt) # Sleep (3000 * 2 ^ attempt) # Fetch (mk mt) # tr)))
     \<and> (\<not> isTransient (toLowerCase (body res)) \<and> \<not> isTokenLimit (toLowerCase (body res)) \<longrightarrow>
        callLLM_loop cfg an mk provider attempt mt
          = (Inl (Deterministic400 an (take 300 (body res))), [Fetch (mk mt)]))
     \<and> (\<not> int attempt < retries cfg \<longrightarrow>
        callLLM_loop cfg an mk provider attempt mt
          = (Inl (Deterministic400 an (take 300 (body res))), [Fetch (mk mt)]))"
proof (intro conjI impI)
  assume a: "isTransient (toLowerCase (body res)) \<and> int attempt < retries cfg"
  then have "callLLM_attempt cfg an attempt mt (provider attempt)
               = Continue (3000 * 2 ^ attempt) mt"
    using assms by (simp add: callLLM_attempt_def)
  with a loop_retry_trace [of attempt cfg an mt provider "3000 * 2 ^ attempt" mt mk]
  show "\<exists>r tr. callLLM_loop cfg an mk provider attempt mt
           = (r, Fetch (mk mt) # Sleep (3000 * 2 ^ attempt) # Fetch (mk mt) # tr)"
    by simp
next
  assume "\<not> isTransient (toLowerCase (body res)) \<and> \<not> isTokenLimit (toLowerCase (body res))"
  then have "callLLM_attempt cfg an attempt mt (provider attempt)
               = Throw (Deterministic400 an (take 300 (body res)))"
    using assms by (simp add: callLLM_attempt_def)
  with assms loop_Throw [of attempt cfg an mt provider _ mk]
  show "callLLM_loop cfg an mk provider attempt mt
          = (Inl (Deterministic400 an (take 300 (body res))), [Fetch (mk mt)])"
    by simp
next
  assume "\<not> int attempt < retries cfg"
  then have "callLLM_attempt cfg an attempt mt (provider attempt)
               = Throw (Deterministic400 an (take 300 (body res)))"
    using assms by (simp add: callLLM_attempt_def)
  with assms loop_Throw [of attempt cfg an mt provider _ mk]
  show "callLLM_loop cfg an mk provider attempt mt
          = (Inl (Deterministic400 an (take 300 (body res))), [Fetch (mk mt)])"
    by simp
qed

text \<open>
  With the default configuration: the body \<open>Rate Limit exceeded\<close> is followed by a sleep of
  3000 ms and a second request; the body \<open>invalid model\<close> ends the call after one request.
\<close>

theorem bad_request_classification_witness:
  "status (badRequest ''Rate Limit exceeded'') = 400
   \<and> isTransient (toLowerCase (body (badRequest ''Rate Limit exceeded'')))
   \<and> take 3 (snd (callLLM keyEnv (POC_CFG Map.empty) (always (badRequest ''Rate Limit exceeded''))
                     ''s'' ''u''))
       = [Fetch (moonshotReq 4096), Sleep 3000, Fetch (moonshotReq 4096)]
   \<and> callLLM keyEnv (POC_CFG Map.empty) (always (badRequest ''invalid model'')) ''s'' ''u''
       = (Inl (Deterministic400 ''Moonshot'' ''invalid model''), [Fetch (moonshotReq 4096)])"
proof -
  have t: "\<exists>r tr. callLLM_loop (POC_CFG Map.empty) ''Moonshot'' moonshotReq
             (always (badRequest ''Rate Limit exceeded'')) 0 4096
           = (r, Fetch (moonshotReq 4096) # Sleep (3000 * 2 ^ 0) # Fetch (moonshotReq 4096) # tr)"
    using bad_request_classification
      [of "badRequest ''Rate Limit exceeded''" "always (badRequest ''Rate Limit exceeded'')" 0
          "POC_CFG Map.empty" "''Moonshot''" moonshotReq 4096]
    by (simp add: badRequest_def always_def POC_CFG_empty marker_examples)
  have d: "callLLM_loop (POC_CFG Map.empty) ''Moonshot'' moonshotReq
             (always (badRequest ''invalid model'')) 0 4096
           = (Inl (Deterministic400 ''Moonshot'' ''invalid model''), [Fetch (moonshotReq 4096)])"
    using bad_request_classification
      [of "badRequest ''invalid model''" "always (badRequest ''invalid model'')" 0
          "POC_CFG Map.empty" "''Moonshot''" moonshotReq 4096]
    by (simp add: badRequest_def always_def POC_CFG_empty marker_examples)
  from t obtain r tr where
    "callLLM_loop (POC_CFG Map.empty) ''Moonshot'' moonshotReq
       (always (badRequest ''Rate Limit exceeded'')) 0 4096
     = (r, Fetch (moonshotReq 4096) # Sleep 3000 # Fetch (moonshotReq 4096) # tr)"
    by auto
  with d show ?thesis
    by (simp add: callLLM_keyEnv POC_CFG_empty badRequest_def marker_examples)
qed

text \<open>
  C3: a response with status 429 or at least 500, received on pass \<open>attempt\<close>, is followed
  by a sleep of \<open>3000 * 2 ^ attempt\<close> ms and another request while \<open>attempt < retries\<close>; on
  pass \<open>retries\<close> the call ends with the status and the first 300 characters of the body.
  A provider that answers 429 exactly \<open>retries\<close> times and then well makes the call return
  the text after \<open>retries + 1\<close> requests, with the sleeps 3000, 6000, ... between them. No
  call sends more than \<open>retries + 1\<close> requests.
\<close>

theorem backoff_on_429_and_5xx:
  "((status res = 429 \<or> 500 \<le> status res) \<and> provider attempt = res
      \<and> int attempt \<le> retries cfg \<longrightarrow>
        (int attempt < retries cfg \<longrightarrow>
           (\<exists>r tr. callLLM_loop cfg an mk provider attempt mt
              = (r, Fetch (mk mt) # Sleep (3000 * 2 ^ attempt) # Fetch (mk mt) # tr)))
        \<and> (\<not> int attempt < retries cfg \<longrightarrow>
           callLLM_loop cfg an mk provider attempt mt
             = (Inl (StatusError an (status res) (take 300 (body res))), [Fetch (mk mt)])))
   \<and> (retries cfg = int n \<and> (\<forall>i<n. status (provider i) = 429) \<and> res_ok (provider n)
        \<and> content (provider n) = Some c \<and> \<not> isBlank (Some c) \<longrightarrow>
        fst (callLLM_loop cfg an mk provider 0 mt) = Inr c
        \<and> length (fetches (snd (callLLM_loop cfg an mk provider 0 mt))) = n + 1
        \<and> sleeps (snd (callLLM_loop cfg an mk provider 0 mt)) = map (\<lambda>i. 3000 * 2 ^ i) [0..<n])
   \<and> length (fetches (snd (callLLM_loop cfg an mk provider 0 mt))) \<le> nat (retries cfg + 1)"
proof (intro conjI impI)
  assume a: "(status res = 429 \<or> 500 \<le> status res) \<and> provider attempt = res
      \<and> int attempt \<le> retries cfg"
  assume lt: "int attempt < retries cfg"
  from a lt have "callLLM_attempt cfg an attempt mt (provider attempt)
               = Continue (3000 * 2 ^ attempt) mt"
    by (auto simp: callLLM_attempt_def)
  with lt loop_retry_trace [of attempt cfg an mt provider "3000 * 2 ^ attempt" mt mk]
  show "\<exists>r tr. callLLM_loop cfg an mk provider attempt mt
           = (r, Fetch (mk mt) # Sleep (3000 * 2 ^ attempt) # Fetch (mk mt) # tr)"
    by simp
next
  assume a: "(status res = 429 \<or> 500 \<le> status res) \<and> provider attempt = res
      \<and> int attempt \<le> retries cfg"
  assume nlt: "\<not> int attempt < retries cfg"
  from a nlt have "callLLM_attempt cfg an attempt mt (provider attempt)
               = Throw (StatusError an (status res) (take 300 (body res)))"
    by (auto simp: callLLM_attempt_def)
  with a loop_Throw [of attempt cfg an mt provider _ mk]
  show "callLLM_loop cfg an mk provider attempt mt
          = (Inl (StatusError an (status res) (take 300 (body res))), [Fetch (mk mt)])"
    by simp
next
  assume b: "retries cfg = int n \<and> (\<forall>i<n. status (provider i) = 429) \<and> res_ok (provider n)
        \<and> content (provider n) = Some c \<and> \<not> isBlank (Some c)"
  have steps: "\<And>i. i < n \<Longrightarrow>
      callLLM_attempt cfg an i mt (provider i) = Continue (3000 * 2 ^ i) mt"
    using b by (simp add: callLLM_attempt_def)
  have "callLLM_attempt cfg an n mt (provider n) = Return c"
    using b by (simp add: callLLM_attempt_def res_ok_def)
  with b loop_Return [of n cfg an mt provider c mk]
  have final: "callLLM_loop cfg an mk provider n mt = (Inr c, [Fetch (mk mt)])"
    by simp
  from b have le: "int n \<le> retries cfg" by simp
  from loop_script [of n cfg an mt provider "\<lambda>i. 3000 * 2 ^ i" mk "Inr c" 0, OF le steps final]
  have "fst (callLLM_loop cfg an mk provider 0 mt) = Inr c
     \<and> fetches (snd (callLLM_loop cfg an mk provider 0 mt)) = replicate (Suc n - 0) (mk mt)
     \<and> sleeps (snd (callLLM_loop cfg an mk provider 0 mt)) = map (\<lambda>i. 3000 * 2 ^ i) [0..<n]"
    by simp
  then show "fst (callLLM_loop cfg an mk provider 0 mt) = Inr c"
    and "length (fetches (snd (callLLM_loop cfg an mk provider 0 mt))) = n + 1"
    and "sleeps (snd (callLLM_loop cfg an mk provider 0 mt)) = map (\<lambda>i. 3000 * 2 ^ i) [0..<n]"
    by simp_all
next
  show "length (fetches (snd (callLLM_loop cfg an mk provider 0 mt))) \<le> nat (retries cfg + 1)"
    using loop_fetch_bound [of cfg an mk provider 0 mt] by simp
qed

text \<open>
  Two 429 answers, then a text, with 2 retries: three requests, sleeps of 3000 and 6000 ms,
  the text returned. Only 429 answers: the call ends after the third request with the body.
\<close>

theorem backoff_on_429_and_5xx_witness:
  "retries (POC_CFG Map.empty) = 2
   \<and> status (script [tooMany, tooMany] (answer ''poc'') 0) = 429
   \<and> status (script [tooMany, tooMany] (answer ''poc'') 1) = 429
   \<and> res_ok (script [tooMany, tooMany] (answer ''poc'') 2)
   \<and> fst (callLLM keyEnv (POC_CFG Map.empty) (script [tooMany, tooMany] (answer ''poc''))
             ''s'' ''u'') = Inr ''poc''
   \<and> length (fetches (snd (callLLM keyEnv (POC_CFG Map.empty)
                 (script [tooMany, tooMany] (answer ''poc'')) ''s'' ''u''))) = 3
   \<and> sleeps (snd (callLLM keyEnv (POC_CFG Map.empty)
                 (script [tooMany, tooMany] (answer ''poc'')) ''s'' ''u'')) = [3000, 6000]
   \<and> callLLM keyEnv (POC_CFG Map.empty) (always tooMany) ''s'' ''u''
       = (Inl (StatusError ''Moonshot'' 429 ''slow down''),
          [Fetch (moonshotReq 4096), Sleep 3000, Fetch (moonshotReq 4096), Sleep 6000,
           Fetch (moonshotReq 4096)])"
proof -
  have all: "\<forall>i<2. status (script [tooMany, tooMany] (answer ''poc'') i) = 429"
    by (simp add: script_def tooMany_def less_Suc_eq numeral_2_eq_2)
  have blank: "\<not> isBlank (Some ''poc'')"
    by (simp add: isBlank_def trim_def isWhiteSpace_def)
  have upt: "[0..<2] = [0, Suc 0]"
    by (simp add: numeral_2_eq_2)
  have good: "fst (callLLM_loop (POC_CFG Map.empty) ''Moonshot'' moonshotReq
                 (script [tooMany, tooMany] (answer ''poc'')) 0 4096) = Inr ''poc''
     \<and> length (fetches (snd (callLLM_loop (POC_CFG Map.empty) ''Moonshot'' moonshotReq
                 (script [tooMany, tooMany] (answer ''poc'')) 0 4096))) = 2 + 1
     \<and> sleeps (snd (callLLM_loop (POC_CFG Map.empty) ''Moonshot'' moonshotReq
                 (script [tooMany, tooMany] (answer ''poc'')) 0 4096))
         = map (\<lambda>i. 3000 * 2 ^ i) [0..<2]"
    using backoff_on_429_and_5xx
      [of tooMany "script [tooMany, tooMany] (answer ''poc'')" 0 "POC_CFG Map.empty"
          "''Moonshot''" moonshotReq 4096 2 "''poc''"] all blank
    by (simp add: POC_CFG_empty script_def answer_def res_ok_def)
  have exhausted: "callLLM_loop (POC_CFG Map.empty) ''Moonshot'' moonshotReq (always tooMany) 2 4096
      = (Inl (StatusError ''Moonshot'' (status tooMany) (take 300 (body tooMany))),
         [Fetch (moonshotReq 4096)])"
    using backoff_on_429_and_5xx
      [of tooMany "always tooMany" 2 "POC_CFG Map.empty" "''Moonshot''" moonshotReq 4096]
    by (simp add: POC_CFG_empty always_def tooMany_def)
  have c0: "callLLM_attempt (POC_CFG Map.empty) ''Moonshot'' 0 4096 (always tooMany 0)
             = Continue 3000 4096"
    and c1: "callLLM_attempt (POC_CFG Map.empty) ''Moonshot'' (Suc 0) 4096 (always tooMany (Suc 0))
             = Continue 6000 4096"
    by (simp_all add: callLLM_attempt_def POC_CFG_empty always_def tooMany_def)
  have "callLLM_loop (POC_CFG Map.empty) ''Moonshot'' moonshotReq (always tooMany) 0 4096
      = (Inl (StatusError ''Moonshot'' 429 ''slow down''),
          [Fetch (moonshotReq 4096), Sleep 3000, Fetch (moonshotReq 4096), Sleep 6000,
           Fetch (moonshotReq 4096)])"
    using exhausted
      loop_Continue [of 0 "POC_CFG Map.empty" "''Moonshot''" 4096 "always tooMany" 3000 4096
        moonshotReq, OF _ c0]
      loop_Continue [of "Suc 0" "POC_CFG Map.empty" "''Moonshot''" 4096 "always tooMany" 6000 4096
        moonshotReq, OF _ c1]
    by (simp add: POC_CFG_empty tooMany_def numeral_2_eq_2)
  with good upt show ?thesis
    by (simp add: callLLM_keyEnv POC_CFG_empty script_def tooMany_def answer_def res_ok_def)
qed

text \<open>
  C2, amended: a 400 response whose lower-cased body has a token-limit marker and no
  transient marker, received on pass \<open>attempt\<close>: while \<open>attempt < retries\<close> and the working
  \<open>maxTokens\<close> is above 2048, the call sleeps 1000 ms and sends the request again with
  \<open>maxTokens\<close> halved (rounded down); otherwise it ends with the deterministic-400 error.
\<close>

theorem token_limit_downshift:
  assumes "status res = 400" and "provider attempt = res" and "int attempt \<le> retries cfg"
    and "isTokenLimit (toLowerCase (body res))" and "\<not> isTransient (toLowerCase (body res))"
  shows
    "(int attempt < retries cfg \<and> 2048 < mt \<longrightarrow>
        (\<exists>r tr. callLLM_loop cfg an mk provider attempt mt
           = (r, Fetch (mk mt) # Sleep 1000 # Fetch (mk (mt div 2)) # tr)))
     \<and> (\<not> (int attempt < retries cfg \<and> 2048 < mt) \<longrightarrow>
        callLLM_loop cfg an mk provider attempt mt
          = (Inl (Deterministic400 an (take 300 (body res))), [Fetch (mk mt)]))"
proof (intro conjI impI)
  assume a: "int attempt < retries cfg \<and> 2048 < mt"
  then have "callLLM_attempt cfg an attempt mt (provider attempt) = Continue 1000 (mt div 2)"
    using assms by (simp add: callLLM_attempt_def)
  with a loop_retry_trace [of attempt cfg an mt provider 1000 "mt div 2" mk]
  show "\<exists>r tr. callLLM_loop cfg an mk provider attempt mt
           = (r, Fetch (mk mt) # Sleep 1000 # Fetch (mk (mt div 2)) # tr)"
    by simp
next
  assume "\<not> (int attempt < retries cfg \<and> 2048 < mt)"
  then have "callLLM_attempt cfg an attempt mt (provider attempt)
               = Throw (Deterministic400 an (take 300 (body res)))"
    using assms by (auto simp: callLLM_attempt_def)
  with assms loop_Throw [of attempt cfg an mt provider _ mk]
  show "callLLM_loop cfg an mk provider attempt mt
          = (Inl (Deterministic400 an (take 300 (body res))), [Fetch (mk mt)])"
    by simp
qed

text \<open>
  \<open>maximum context length exceeded\<close> with the default 4096: the second request carries
  2048, and the same answer to it ends the call, 2048 being no longer above 2048.
\<close>

theorem token_limit_downshift_witness:
  "status (badRequest ''maximum context length exceeded'') = 400
   \<and> isTokenLimit (toLowerCase (body (badRequest ''maximum context length exceeded'')))
   \<and> \<not> isTransient (toLowerCase (body (badRequest ''maximum context length exceeded'')))
   \<and> callLLM keyEnv (POC_CFG Map.empty) (always (badRequest ''maximum context length exceeded''))
        ''s'' ''u''
       = (Inl (Deterministic400 ''Moonshot'' ''maximum context length exceeded''),
          [Fetch (moonshotReq 4096), Sleep 1000, Fetch (moonshotReq 2048)])"
proof -
  let ?p = "always (badRequest ''maximum context length exceeded'')"
  have second: "callLLM_loop (POC_CFG Map.empty) ''Moonshot'' moonshotReq ?p (Suc 0) 2048
      = (Inl (Deterministic400 ''Moonshot'' ''maximum context length exceeded''),
         [Fetch (moonshotReq 2048)])"
    using token_limit_downshift
      [of "badRequest ''maximum context length exceeded''" ?p "Suc 0" "POC_CFG Map.empty"
          2048 "''Moonshot''" moonshotReq]
    by (simp add: POC_CFG_empty always_def badRequest_def marker_examples)
  have first: "\<exists>r tr. callLLM_loop (POC_CFG Map.empty) ''Moonshot'' moonshotReq ?p 0 4096
      = (r, Fetch (moonshotReq 4096) # Sleep 1000 # Fetch (moonshotReq (4096 div 2)) # tr)"
    using token_limit_downshift
      [of "badRequest ''maximum context length exceeded''" ?p 0 "POC_CFG Map.empty"
          4096 "''Moonshot''" moonshotReq]
    by (simp add: POC_CFG_empty always_def badRequest_def marker_examples)
  have c0: "callLLM_attempt (POC_CFG Map.empty) ''Moonshot'' 0 4096 (?p 0) = Continue 1000 2048"
    by (simp add: callLLM_attempt_def POC_CFG_empty always_def badRequest_def marker_examples)
  have "callLLM_loop (POC_CFG Map.empty) ''Moonshot'' moonshotReq ?p 0 4096
      = (Inl (Deterministic400 ''Moonshot'' ''maximum context length exceeded''),
          [Fetch (moonshotReq 4096), Sleep 1000, Fetch (moonshotReq 2048)])"
    using second
      loop_Continue [of 0 "POC_CFG Map.empty" "''Moonshot''" 4096 ?p 1000 2048 moonshotReq, OF _ c0]
    by (simp add: POC_CFG_empty)
  then show ?thesis
    by (simp add: callLLM_keyEnv POC_CFG_empty badRequest_def marker_examples)
qed

text \<open>
  C2 as stated fails on a body with both kinds of marker: the transient branch comes
  first, so every request carries the unchanged 4096 and the sleeps are those of the
  backoff.
\<close>

theorem token_marker_with_transient_marker_counterexample:
  "status (badRequest ''rate limit: too many tokens'') = 400
   \<and> isTokenLimit (toLowerCase (body (badRequest ''rate limit: too many tokens'')))
   \<and> maxTokens (POC_CFG Map.empty) = 4096
   \<and> map req_max_tokens (fetches (snd (callLLM keyEnv (POC_CFG Map.empty)
        (always (badRequest ''rate limit: too many tokens'')) ''s'' ''u'')))
       = [4096, 4096, 4096]
   \<and> sleeps (snd (callLLM keyEnv (POC_CFG Map.empty)
        (always (badRequest ''rate limit: too many tokens'')) ''s'' ''u''))
       = [3000, 6000]"
proof -
  let ?p = "always (badRequest ''rate limit: too many tokens'')"
  have c0: "callLLM_attempt (POC_CFG Map.empty) ''Moonshot'' 0 4096 (?p 0) = Continue 3000 4096"
    and c1: "callLLM_attempt (POC_CFG Map.empty) ''Moonshot'' (Suc 0) 4096 (?p (Suc 0))
               = Continue 6000 4096"
    and c2: "callLLM_attempt (POC_CFG Map.empty) ''Moonshot'' (Suc (Suc 0)) 4096 (?p (Suc (Suc 0)))
               = Throw (Deterministic400 ''Moonshot'' ''rate limit: too many tokens'')"
    by (simp_all add: callLLM_attempt_def POC_CFG_empty always_def badRequest_def marker_examples)
  have "callLLM_loop (POC_CFG Map.empty) ''Moonshot'' moonshotReq ?p 0 4096
      = (Inl (Deterministic400 ''Moonshot'' ''rate limit: too many tokens''),
          [Fetch (moonshotReq 4096), Sleep 3000, Fetch (moonshotReq 4096), Sleep 6000,
           Fetch (moonshotReq 4096)])"
    using
      loop_Continue [of 0 "POC_CFG Map.empty" "''Moonshot''" 4096 ?p 3000 4096 moonshotReq, OF _ c0]
      loop_Continue [of "Suc 0" "POC_CFG Map.empty" "''Moonshot''" 4096 ?p 6000 4096 moonshotReq,
        OF _ c1]
      loop_Throw [of "Suc (Suc 0)" "POC_CFG Map.empty" "''Moonshot''" 4096 ?p _ moonshotReq,
        OF _ c2]
    by (simp add: POC_CFG_empty)
  then show ?thesis
    by (simp add: callLLM_keyEnv POC_CFG_empty badRequest_def marker_examples moonshotReq_def)
qed

text \<open>
  C6, amended: a 2xx response with no text, or only white space, received on pass
  \<open>attempt\<close> is followed by a sleep of 1000 ms and another request while
  \<open>attempt < retries\<close>, with the counter all retries share; on pass \<open>retries\<close> the call ends
  with the empty-response error. A provider that only gives such answers is asked
  \<open>retries + 1\<close> times, with \<open>retries\<close> sleeps of 1000 ms.
\<close>

theorem empty_response_retry:
  "(res_ok res \<and> isBlank (content res) \<and> provider attempt = res
      \<and> int attempt \<le> retries cfg \<longrightarrow>
        (int attempt < retries cfg \<longrightarrow>
           (\<exists>r tr. callLLM_loop cfg an mk provider attempt mt
              = (r, Fetch (mk mt) # Sleep 1000 # Fetch (mk mt) # tr)))
        \<and> (\<not> int attempt < retries cfg \<longrightarrow>
           callLLM_loop cfg an mk provider attempt mt = (Inl EmptyResponse, [Fetch (mk mt)])))
   \<and> (retries cfg = int n \<and> (\<forall>i\<le>n. res_ok (provider i) \<and> isBlank (content (provider i))) \<longrightarrow>
        fst (callLLM_loop cfg an mk provider 0 mt) = Inl EmptyResponse
        \<and> length (fetches (snd (callLLM_loop cfg an mk provider 0 mt))) = n + 1
        \<and> sleeps (snd (callLLM_loop cfg an mk provider 0 mt)) = replicate n 1000)"
proof (intro conjI impI)
  assume a: "res_ok res \<and> isBlank (content res) \<and> provider attempt = res
      \<and> int attempt \<le> retries cfg"
  assume lt: "int attempt < retries cfg"
  from a lt have "callLLM_attempt cfg an attempt mt (provider attempt) = Continue 1000 mt"
    by (auto simp: callLLM_attempt_def res_ok_def)
  with lt loop_retry_trace [of attempt cfg an mt provider 1000 mt mk]
  show "\<exists>r tr. callLLM_loop cfg an mk provider attempt mt
           = (r, Fetch (mk mt) # Sleep 1000 # Fetch (mk mt) # tr)"
    by simp
next
  assume a: "res_ok res \<and> isBlank (content res) \<and> provider attempt = res
      \<and> int attempt \<le> retries cfg"
  assume nlt: "\<not> int attempt < retries cfg"
  from a nlt have "callLLM_attempt cfg an attempt mt (provider attempt) = Throw EmptyResponse"
    by (auto simp: callLLM_attempt_def res_ok_def)
  with a loop_Throw [of attempt cfg an mt provider _ mk]
  show "callLLM_loop cfg an mk provider attempt mt = (Inl EmptyResponse, [Fetch (mk mt)])"
    by simp
next
  assume b: "retries cfg = int n \<and> (\<forall>i\<le>n. res_ok (provider i) \<and> isBlank (content (provider i)))"
  have steps: "callLLM_attempt cfg an i mt (provider i) = Continue 1000 mt" if "i < n" for i
  proof -
    from b that have "res_ok (provider i)" and "isBlank (content (provider i))"
      and "int i < retries cfg"
      by simp_all
    then show ?thesis by (simp add: callLLM_attempt_def res_ok_def)
  qed
  from b have "res_ok (provider n)" and "isBlank (content (provider n))"
    and "\<not> int n < retries cfg"
    by simp_all
  then have "callLLM_attempt cfg an n mt (provider n) = Throw EmptyResponse"
    by (simp add: callLLM_attempt_def res_ok_def)
  with b loop_Throw [of n cfg an mt provider _ mk]
  have final: "callLLM_loop cfg an mk provider n mt = (Inl EmptyResponse, [Fetch (mk mt)])"
    by simp
  from b have le: "int n \<le> retries cfg" by simp
  from loop_script [of n cfg an mt provider "\<lambda>i. 1000" mk "Inl EmptyResponse" 0, OF le steps final]
  have "fst (callLLM_loop cfg an mk provider 0 mt) = Inl EmptyResponse
     \<and> fetches (snd (callLLM_loop cfg an mk provider 0 mt)) = replicate (Suc n - 0) (mk mt)
     \<and> sleeps (snd (callLLM_loop cfg an mk provider 0 mt)) = map (\<lambda>i. 1000) [0..<n]"
    by simp
  then show "fst (callLLM_loop cfg an mk provider 0 mt) = Inl EmptyResponse"
    and "length (fetches (snd (callLLM_loop cfg an mk provider 0 mt))) = n + 1"
    and "sleeps (snd (callLLM_loop cfg an mk provider 0 mt)) = replicate n 1000"
    by (simp_all add: map_replicate_const)
qed

lemma blank_examples:
  "isBlank (Some ''  '')" "isBlank (Some [])" "isBlank None" "\<not> isBlank (Some ''poc'')"
  by (simp_all add: isBlank_def trim_def isWhiteSpace_def)

text \<open>
  White space only, with the default 2 retries: three requests and two sleeps of 1000 ms.
\<close>

theorem empty_response_retry_witness:
  "res_ok (answer ''  '') \<and> isBlank (content (answer ''  ''))
   \<and> retries (POC_CFG Map.empty) = 2
   \<and> fst (callLLM keyEnv (POC_CFG Map.empty) (always (answer ''  '')) ''s'' ''u'')
       = Inl EmptyResponse
   \<and> length (fetches (snd (callLLM keyEnv (POC_CFG Map.empty) (always (answer ''  ''))
                 ''s'' ''u''))) = 3
   \<and> sleeps (snd (callLLM keyEnv (POC_CFG Map.empty) (always (answer ''  '')) ''s'' ''u''))
       = [1000, 1000]"
  using empty_response_retry
    [of "answer ''  ''" "always (answer ''  '')" 0 "POC_CFG Map.empty" "''Moonshot''"
        moonshotReq 4096 2]
  by (simp add: callLLM_keyEnv POC_CFG_empty always_def answer_def res_ok_def blank_examples
        numeral_2_eq_2)

text \<open>
  C6 as stated fails with the default configuration: the empty answer is not retried once
  but twice.
\<close>

theorem empty_response_one_extra_attempt_counterexample:
  "res_ok (answer ''  '') \<and> isBlank (content (answer ''  ''))
   \<and> retries (POC_CFG Map.empty) = 2
   \<and> length (fetches (snd (callLLM keyEnv (POC_CFG Map.empty) (always (answer ''  ''))
                 ''s'' ''u''))) \<noteq> 1 + 1
   \<and> sleeps (snd (callLLM keyEnv (POC_CFG Map.empty) (always (answer ''  '')) ''s'' ''u''))
       \<noteq> [1000]"
proof -
  let ?p = "always (answer ''  '')"
  have c0: "callLLM_attempt (POC_CFG Map.empty) ''Moonshot'' 0 4096 (?p 0) = Continue 1000 4096"
    and c1: "callLLM_attempt (POC_CFG Map.empty) ''Moonshot'' (Suc 0) 4096 (?p (Suc 0))
               = Continue 1000 4096"
    and c2: "callLLM_attempt (POC_CFG Map.empty) ''Moonshot'' (Suc (Suc 0)) 4096 (?p (Suc (Suc 0)))
               = Throw EmptyResponse"
    by (simp_all add: callLLM_attempt_def POC_CFG_empty always_def answer_def res_ok_def
          blank_examples)
  have "callLLM_loop (POC_CFG Map.empty) ''Moonshot'' moonshotReq ?p 0 4096
      = (Inl EmptyResponse,
          [Fetch (moonshotReq 4096), Sleep 1000, Fetch (moonshotReq 4096), Sleep 1000,
           Fetch (moonshotReq 4096)])"
    using
      loop_Continue [of 0 "POC_CFG Map.empty" "''Moonshot''" 4096 ?p 1000 4096 moonshotReq, OF _ c0]
      loop_Continue [of "Suc 0" "POC_CFG Map.empty" "''Moonshot''" 4096 ?p 1000 4096 moonshotReq,
        OF _ c1]
      loop_Throw [of "Suc (Suc 0)" "POC_CFG Map.empty" "''Moonshot''" 4096 ?p _ moonshotReq,
        OF _ c2]
    by (simp add: POC_CFG_empty)
  then show ?thesis
    by (simp add: callLLM_keyEnv POC_CFG_empty answer_def res_ok_def blank_examples)
qed

section \<open>Facts about the identifier token\<close>












section \<open>Facts about the batch dispatcher\<close>

lemma run_task_admitted [simp]: "admitted (run_task d gen idx adm f) = adm"
  by (simp add: run_task_def Let_def split: prod.splits)

lemma run_task_issued [simp]:
  "issued (run_task d gen idx adm f) = adm + (if idx = 0 then 0 else d)"
  by (simp add: run_task_def Let_def split: prod.splits)

lemma run_task_completed: "issued (run_task d gen idx adm f) \<le> completed (run_task d gen idx adm f)"
  by (simp add: run_task_def Let_def split: prod.splits)

lemma run_limited_length: "length (run_limited c d gen running idx fs) = length fs"
  by (induction fs arbitrary: running idx) (simp_all add: Let_def split: prod.splits)

lemma run_limited_issued:
  "i < length fs \<Longrightarrow>
   issued (run_limited c d gen running idx fs ! i)
     = admitted (run_limited c d gen running idx fs ! i) + (if idx + i = 0 then 0 else d)"
proof (induction fs arbitrary: running idx i)
  case Nil
  then show ?case by simp
next
  case (Cons f fs)
  show ?case
  proof (cases i)
    case 0
    then show ?thesis by (simp add: Let_def split: prod.splits)
  next
    case (Suc j)
    with Cons.prems have "j < length fs" by simp
    from Cons.IH [OF this, of _ "Suc idx"] Suc show ?thesis
      by (simp add: Let_def split: prod.splits)
  qed
qed

lemma run_limited_completed:
  "i < length fs \<Longrightarrow>
   admitted (run_limited c d gen running idx fs ! i)
     \<le> completed (run_limited c d gen running idx fs ! i)"
proof (induction fs arbitrary: running idx i)
  case Nil
  then show ?case by simp
next
  case (Cons f fs)
  show ?case
  proof (cases i)
    case 0
    have "adm \<le> completed (run_task d gen idx adm f)" for adm
      using run_task_completed [of d gen idx adm f] by simp
    with 0 show ?thesis by (simp add: Let_def split: prod.splits)
  next
    case (Suc j)
    with Cons.prems have "j < length fs" by simp
    from Cons.IH [OF this, of _ "Suc idx"] Suc show ?thesis
      by (simp add: Let_def split: prod.splits)
  qed
qed

text \<open>With one place, the next task is admitted when the running one completes.\<close>

lemma run_one_first:
  "admitted (run_limited 1 d gen [t] idx (f # fs) ! 0) = t"
  by (simp add: admit_def Let_def)

lemma run_one_rest:
  "length running \<le> 1 \<Longrightarrow>
   \<exists>s. run_limited 1 d gen running idx (f # fs)
          = s # run_limited 1 d gen [completed s] (Suc idx) fs"
  by (cases running) (simp_all add: admit_def Let_def)

lemma run_one_chain:
  "length running \<le> 1 \<Longrightarrow> Suc n < length fs \<Longrightarrow>
   admitted (run_limited 1 d gen running idx fs ! Suc n)
     = completed (run_limited 1 d gen running idx fs ! n)"
proof (induction fs arbitrary: running idx n)
  case Nil
  then show ?case by simp
next
  case (Cons f fs)
  from run_one_rest [OF Cons.prems(1), of d gen idx f fs]
  obtain s where s: "run_limited 1 d gen running idx (f # fs)
          = s # run_limited 1 d gen [completed s] (Suc idx) fs"
    by blast
  show ?case
  proof (cases n)
    case 0
    with Cons.prems obtain g gs where "fs = g # gs" by (cases fs) auto
    with 0 s run_one_first [of d gen "completed s" "Suc idx" g gs] show ?thesis
      by simp
  next
    case (Suc m)
    with Cons.prems have "Suc m < length fs" by simp
    from Cons.IH [of "[completed s]" m "Suc idx"] this s Suc show ?thesis
      by simp
  qed
qed

text \<open>
  C7: for any concurrency of at least 1, every item is requested exactly
  \<open>interRequestDelayMs\<close> after its admission, except the item at index 0, which is requested
  at its admission; the durations and outcomes of the items play no part. With a
  concurrency of 1, item \<open>n + 1\<close> is requested no earlier than \<open>interRequestDelayMs\<close> after
  item \<open>n\<close> was admitted.
\<close>

theorem cooldown_before_every_item_but_first:
  "(1 \<le> concurrency cfg \<longrightarrow>
      (\<exists>slots. dispatch cfg gen items = Inr slots \<and> length slots = length items
         \<and> (\<forall>i<length items.
               issued (slots ! i)
                 = admitted (slots ! i) + (if i = 0 then 0 else nat (interRequestDelayMs cfg)))))
   \<and> (concurrency cfg = 1 \<longrightarrow>
      (\<forall>slots n. dispatch cfg gen items = Inr slots \<and> Suc n < length items \<longrightarrow>
         admitted (slots ! n) + nat (interRequestDelayMs cfg) \<le> issued (slots ! Suc n)))"
proof (intro conjI impI allI)
  assume "1 \<le> concurrency cfg"
  then show "\<exists>slots. dispatch cfg gen items = Inr slots \<and> length slots = length items
         \<and> (\<forall>i<length items.
               issued (slots ! i)
                 = admitted (slots ! i) + (if i = 0 then 0 else nat (interRequestDelayMs cfg)))"
    using run_limited_issued [of _ items "nat (concurrency cfg)" "nat (interRequestDelayMs cfg)" gen "[]" 0]
    by (simp add: dispatch_def run_limited_length)
next
  fix slots n
  assume c: "concurrency cfg = 1"
  assume a: "dispatch cfg gen items = Inr slots \<and> Suc n < length items"
  let ?d = "nat (interRequestDelayMs cfg)"
  from a c have sl: "slots = run_limited 1 ?d gen [] 0 items"
    by (simp add: dispatch_def)
  from a have n: "Suc n < length items" and n': "n < length items" by simp_all
  have "issued (slots ! Suc n) = admitted (slots ! Suc n) + ?d"
    using run_limited_issued [OF n, of 1 ?d gen "[]" 0] sl by simp
  moreover have "admitted (slots ! Suc n) = completed (slots ! n)"
    using run_one_chain [of "[]" n items ?d gen 0] n sl by simp
  moreover have "admitted (slots ! n) \<le> completed (slots ! n)"
    using run_limited_completed [OF n', of 1 ?d gen "[]" 0] sl by simp
  ultimately show "admitted (slots ! n) + ?d \<le> issued (slots ! Suc n)"
    by simp
qed

lemma dispatch_three:
  "dispatch (POC_CFG Map.empty) sampleGen threeItems
     = Inr [\<lparr> admitted = 0, issued = 0, completed = 500, succeeded = False \<rparr>,
            \<lparr> admitted = 500, issued = 2500, completed = 2600, succeeded = True \<rparr>,
            \<lparr> admitted = 2600, issued = 4600, completed = 5300, succeeded = True \<rparr>]"
  by (simp add: dispatch_def POC_CFG_def safeInt_def Number_isFinite_def threeItems_def
        sampleGen_def admit_def run_task_def Let_def)

text \<open>
  Three items, the first of which fails, with the default configuration: admissions at 0,
  500 and 2600 ms, requests at 0, 2500 and 4600 ms.
\<close>

theorem cooldown_before_every_item_but_first_witness:
  "concurrency (POC_CFG Map.empty) = 1 \<and> interRequestDelayMs (POC_CFG Map.empty) = 2000
   \<and> Suc 1 < length threeItems
   \<and> map admitted (projr (dispatch (POC_CFG Map.empty) sampleGen threeItems)) = [0, 500, 2600]
   \<and> map issued (projr (dispatch (POC_CFG Map.empty) sampleGen threeItems)) = [0, 2500, 4600]
   \<and> admitted (projr (dispatch (POC_CFG Map.empty) sampleGen threeItems) ! 1) + 2000
       \<le> issued (projr (dispatch (POC_CFG Map.empty) sampleGen threeItems) ! Suc 1)"
proof -
  have cfg: "concurrency (POC_CFG Map.empty) = 1" "interRequestDelayMs (POC_CFG Map.empty) = 2000"
    by (simp_all add: POC_CFG_def safeInt_def Number_isFinite_def)
  have len: "Suc 1 < length threeItems"
    by (simp add: threeItems_def)
  from cooldown_before_every_item_but_first [of "POC_CFG Map.empty" sampleGen threeItems]
    cfg len dispatch_three
  have "admitted (projr (dispatch (POC_CFG Map.empty) sampleGen threeItems) ! 1) + 2000
       \<le> issued (projr (dispatch (POC_CFG Map.empty) sampleGen threeItems) ! Suc 1)"
    by simp
  with cfg len dispatch_three show ?thesis by simp
qed

end
